theory Spec2Isabelle
  imports Main "HOL-Library.AList" "HOL-Library.Word"
begin

section \<open>Python values, strings and exceptions\<close>

text \<open>
  The client is Python. A Python \<open>str\<close> is modelled as a \<open>string\<close>, an
  \<open>Optional[str]\<close> as a \<open>string option\<close>, and an exception as a value: every
  operation that can raise returns a sum whose left injection is the exception.
  \<open>exn_text\<close> is what \<open>str(e)\<close> yields; a \<open>GitCommandError\<close> also carries its
  \<open>stderr\<close> attribute, which the handlers print instead.
\<close>

datatype py_exn =
    GitCommandError (stderr: string) (exn_text: string)
  | TypeError (exn_text: string)
  | KeyError (exn_text: string)
  | IndexError (exn_text: string)
  | ValueError (exn_text: string)
  | OSError (exn_text: string)
  | AttributeError (exn_text: string)

text \<open>Sequencing of steps that may raise, and a loop body run over a list.\<close>

definition and_then :: "py_exn + 'a \<Rightarrow> ('a \<Rightarrow> py_exn + 'b) \<Rightarrow> py_exn + 'b" where
  "and_then m f = (case m of Inl e \<Rightarrow> Inl e | Inr x \<Rightarrow> f x)"

fun for_each :: "('a \<Rightarrow> py_exn + 'b) \<Rightarrow> 'a list \<Rightarrow> py_exn + 'b list" where
  "for_each f [] = Inr []"
| "for_each f (x # xs) =
     (case f x of Inl e \<Rightarrow> Inl e
      | Inr y \<Rightarrow> (case for_each f xs of Inl e \<Rightarrow> Inl e | Inr ys \<Rightarrow> Inr (y # ys)))"

text \<open>Truthiness of an optional string and of an optional integer argument.\<close>

definition truthy :: "string option \<Rightarrow> bool" where
  "truthy s = (case s of None \<Rightarrow> False | Some t \<Rightarrow> t \<noteq> [])"

definition truthy_int :: "int option \<Rightarrow> bool" where
  "truthy_int n = (case n of None \<Rightarrow> False | Some i \<Rightarrow> i \<noteq> 0)"

text \<open>\<open>s.split(c)\<close> for a one-character separator: never the empty list.\<close>

fun split_on :: "char \<Rightarrow> string \<Rightarrow> string list" where
  "split_on c [] = [[]]"
| "split_on c (x # xs) =
     (if x = c then [] # split_on c xs
      else (case split_on c xs of [] \<Rightarrow> [[x]] | w # ws \<Rightarrow> (x # w) # ws))"

text \<open>
  \<open>sep.join(parts)\<close>, \<open>s.startswith(p)\<close>, the substring test \<open>sub in s\<close>,
  and a name between single quotes as the messages print it.
\<close>

fun join :: "string \<Rightarrow> string list \<Rightarrow> string" where
  "join sep [] = []"
| "join sep [p] = p"
| "join sep (p # q # ps) = p @ sep @ join sep (q # ps)"

definition startswith :: "string \<Rightarrow> string \<Rightarrow> bool" where
  "startswith s p = (take (length p) s = p)"

fun contains :: "string \<Rightarrow> string \<Rightarrow> bool" where
  "contains [] sub = (sub = [])"
| "contains (x # xs) sub = (startswith (x # xs) sub \<or> contains xs sub)"

definition quoted :: "string \<Rightarrow> string" where
  "quoted s = [CHR 0x27] @ s @ [CHR 0x27]"

section \<open>Configuration store\<close>

text \<open>
  The configuration is whatever \<open>json.load\<close> returned, or the default document: a
  JSON value. A mapping keeps its keys in insertion order, so it is an association
  list; a float is its 64-bit pattern. Values loaded from a file or built by
  \<open>_default_config\<close> share no sub-objects, so the in-place updates of the source are
  updates of a tree.
\<close>

datatype json =
    JNull
  | JBool bool
  | JInt int
  | JFloat "64 word"
  | JStr string
  | JList "json list"
  | JDict "(string \<times> json) list"


definition type_name :: "json \<Rightarrow> string" where
  "type_name v =
     (case v of JNull \<Rightarrow> ''NoneType'' | JBool _ \<Rightarrow> ''bool'' | JInt _ \<Rightarrow> ''int''
      | JFloat _ \<Rightarrow> ''float'' | JStr _ \<Rightarrow> ''str'' | JList _ \<Rightarrow> ''list''
      | JDict _ \<Rightarrow> ''dict'')"

text \<open>
  The four object protocols the accessors use with a string key: \<open>k in obj\<close>,
  \<open>obj[k]\<close>, \<open>obj[k] = v\<close> and \<open>del obj[k]\<close>. Only a mapping supports the last
  three; \<open>in\<close> is also defined on a string (substring) and on a list (membership).
\<close>

definition py_in :: "string \<Rightarrow> json \<Rightarrow> py_exn + bool" where
  "py_in k obj =
     (case obj of
        JDict d \<Rightarrow> Inr (k \<in> set (map fst d))
      | JStr s \<Rightarrow> Inr (contains s k)
      | JList xs \<Rightarrow> Inr (JStr k \<in> set xs)
      | _ \<Rightarrow> Inl (TypeError (''argument of type '' @ quoted (type_name obj)
                              @ '' is not iterable'')))"

definition py_getitem :: "json \<Rightarrow> string \<Rightarrow> py_exn + json" where
  "py_getitem obj k =
     (case obj of
        JDict d \<Rightarrow> (case map_of d k of Some v \<Rightarrow> Inr v | None \<Rightarrow> Inl (KeyError k))
      | JStr _ \<Rightarrow> Inl (TypeError ''string indices must be integers'')
      | JList _ \<Rightarrow> Inl (TypeError ''list indices must be integers or slices, not str'')
      | _ \<Rightarrow> Inl (TypeError (quoted (type_name obj)
                              @ '' object is not subscriptable'')))"

definition py_setitem :: "json \<Rightarrow> string \<Rightarrow> json \<Rightarrow> py_exn + json" where
  "py_setitem obj k v =
     (case obj of
        JDict d \<Rightarrow> Inr (JDict (AList.update k v d))
      | JList _ \<Rightarrow> Inl (TypeError ''list indices must be integers or slices, not str'')
      | _ \<Rightarrow> Inl (TypeError (quoted (type_name obj)
                              @ '' object does not support item assignment'')))"

definition py_delitem :: "json \<Rightarrow> string \<Rightarrow> py_exn + json" where
  "py_delitem obj k =
     (case obj of
        JDict d \<Rightarrow> (if k \<in> set (map fst d) then Inr (JDict (AList.delete k d))
                    else Inl (KeyError k))
      | JList _ \<Rightarrow> Inl (TypeError ''list indices must be integers or slices, not str'')
      | _ \<Rightarrow> Inl (TypeError (quoted (type_name obj) @ '' object doesn'' @ [CHR 0x27]
                              @ ''t support item deletion'')))"

text \<open>
  The manager object: the in-memory document and the path of its file. What the
  file system answers when \<open>save_config\<close> writes the file is an input:
  \<open>None\<close> when the write goes through, the exception otherwise.
\<close>

record config_manager =
  config :: json
  config_file :: string

definition default_config :: "string \<Rightarrow> json" where
  "default_config key_path =
     JDict [(''user'', JDict [(''name'', JStr ''''), (''email'', JStr '''')]),
            (''ssh'', JDict [(''key_path'', JStr key_path)]),
            (''defaults'', JDict [(''remote'', JStr ''origin''), (''branch'', JStr ''main'')]),
            (''preferences'', JDict [(''auto_add_ssh_key'', JBool True),
                                     (''verbose'', JBool False),
                                     (''color'', JBool True)])]"

definition save_config :: "py_exn option \<Rightarrow> config_manager \<Rightarrow> bool \<times> string" where
  "save_config io cm =
     (case io of
        None \<Rightarrow> (True, ''Configuration saved to '' @ config_file cm)
      | Some e \<Rightarrow> (False, ''Error saving configuration: '' @ exn_text e))"



text \<open>
  The source walks down by reference (\<open>config = config[k]\<close>) and mutates the
  object it reaches. In the tree, the child as the walk left it is put back under its
  key; \<open>put_back\<close> is only reached below a mapping.
\<close>

definition put_back :: "json \<Rightarrow> string \<Rightarrow> json \<Rightarrow> json" where
  "put_back parent k child =
     (case parent of JDict d \<Rightarrow> JDict (AList.update k child d) | _ \<Rightarrow> parent)"

text \<open>
  \<open>set\<close>: the loop over \<open>keys[:-1]\<close> followed by the assignment at \<open>keys[-1]\<close>,
  as one descent. The result is the document as the call leaves it together with the
  exception that escaped, if one did. The list of segments is what \<open>split\<close> returned
  and so never empty; on the empty list \<open>keys[-1]\<close> would raise.
\<close>

fun set_walk :: "json \<Rightarrow> string list \<Rightarrow> json \<Rightarrow> json \<times> py_exn option" where
  "set_walk cfg [] v = (cfg, Some (IndexError ''list index out of range''))"
| "set_walk cfg [k] v =
     (case py_setitem cfg k v of Inl e \<Rightarrow> (cfg, Some e) | Inr cfg' \<Rightarrow> (cfg', None))"
| "set_walk cfg (k # k' # ks) v =
     (case py_in k cfg of
        Inl e \<Rightarrow> (cfg, Some e)
      | Inr present \<Rightarrow>
          (case (if \<not> present then py_setitem cfg k (JDict []) else Inr cfg) of
             Inl e \<Rightarrow> (cfg, Some e)
           | Inr cfg1 \<Rightarrow>
               (case py_getitem cfg1 k of
                  Inl e \<Rightarrow> (cfg1, Some e)
                | Inr child \<Rightarrow>
                    (case set_walk child (k' # ks) v of
                       (child', r) \<Rightarrow> (put_back cfg1 k child', r)))))"

definition set_cfg ::
  "py_exn option \<Rightarrow> config_manager \<Rightarrow> string \<Rightarrow> json
     \<Rightarrow> config_manager \<times> (py_exn + bool \<times> string)" where
  "set_cfg io cm key v =
     (case set_walk (config cm) (split_on CHR ''.'' key) v of
        (cfg', Some e) \<Rightarrow> (cm\<lparr>config := cfg'\<rparr>, Inl e)
      | (cfg', None) \<Rightarrow> (cm\<lparr>config := cfg'\<rparr>, Inr (save_config io (cm\<lparr>config := cfg'\<rparr>))))"

text \<open>
  The documents and keys on which the descent of \<open>set\<close> meets mappings only: the
  document itself is a mapping, and so is every value found under a segment before the
  last, as far as the segments are present.
\<close>

fun mappings_along :: "json \<Rightarrow> string list \<Rightarrow> bool" where
  "mappings_along cfg [] = False"
| "mappings_along cfg [k] = (case cfg of JDict _ \<Rightarrow> True | _ \<Rightarrow> False)"
| "mappings_along cfg (k # k' # ks) =
     (case cfg of
        JDict d \<Rightarrow>
          (case map_of d k of None \<Rightarrow> True | Some child \<Rightarrow> mappings_along child (k' # ks))
      | _ \<Rightarrow> False)"

text \<open>
  \<open>delete\<close>: the same descent. The inner result is the exception that escaped, or
  whether the leaf was found and removed.
\<close>

fun delete_walk :: "json \<Rightarrow> string list \<Rightarrow> json \<times> (py_exn + bool)" where
  "delete_walk cfg [] = (cfg, Inl (IndexError ''list index out of range''))"
| "delete_walk cfg [k] =
     (case py_in k cfg of
        Inl e \<Rightarrow> (cfg, Inl e)
      | Inr present \<Rightarrow>
          (if present then
             (case py_delitem cfg k of Inl e \<Rightarrow> (cfg, Inl e) | Inr cfg' \<Rightarrow> (cfg', Inr True))
           else (cfg, Inr False)))"
| "delete_walk cfg (k # k' # ks) =
     (case py_in k cfg of
        Inl e \<Rightarrow> (cfg, Inl e)
      | Inr present \<Rightarrow>
          (if \<not> present then (cfg, Inr False)
           else
             (case py_getitem cfg k of
                Inl e \<Rightarrow> (cfg, Inl e)
              | Inr child \<Rightarrow>
                  (case delete_walk child (k' # ks) of
                     (child', r) \<Rightarrow> (put_back cfg k child', r)))))"

definition delete ::
  "py_exn option \<Rightarrow> config_manager \<Rightarrow> string
     \<Rightarrow> config_manager \<times> (py_exn + bool \<times> string)" where
  "delete io cm key =
     (case delete_walk (config cm) (split_on CHR ''.'' key) of
        (cfg', Inl e) \<Rightarrow> (cm\<lparr>config := cfg'\<rparr>, Inl e)
      | (cfg', Inr True) \<Rightarrow> (cm\<lparr>config := cfg'\<rparr>, Inr (save_config io (cm\<lparr>config := cfg'\<rparr>)))
      | (cfg', Inr False) \<Rightarrow>
          (cm\<lparr>config := cfg'\<rparr>,
           Inr (False, ''Key '' @ quoted key @ '' not found'')))"

section \<open>The repository and the version-control engine\<close>



definition isspace :: "char \<Rightarrow> bool" where
  "isspace c = (let n = (of_char c :: nat) in (9 \<le> n \<and> n \<le> 13) \<or> (28 \<le> n \<and> n \<le> 32))"

definition strip :: "string \<Rightarrow> string" where
  "strip s = rev (dropWhile isspace (rev (dropWhile isspace s)))"

definition fmt_opt :: "string option \<Rightarrow> string" where
  "fmt_opt p = (case p of None \<Rightarrow> ''None'' | Some s \<Rightarrow> s)"

text \<open>
  The data the wrappers read from the engine's objects. A commit is compared by its
  id, as the engine's objects are. \<open>HEAD\<close> either names a branch or is detached at a
  commit; a branch named by \<open>HEAD\<close> that has no tip yet is the state before the first
  commit.
\<close>

record commit =
  hexsha :: string
  author_name :: string
  author_email :: string
  committed_date :: int
  message :: string
  parents :: "string list"

datatype head_ref = Attached string | Detached commit

text \<open>
  What a diff is taken against: the working tree (the argument \<open>None\<close>), a commit,
  or the engine's empty tree. The wrappers only ever pass the first two.
\<close>

datatype diff_other = WorkingTree | Treeish commit | NullTree

text \<open>
  One changed path of a diff; \<open>diff_bytes\<close> is the patch text after
  \<open>decode('utf-8', errors='replace')\<close>, which is empty exactly when the bytes are.
\<close>

record diff_item =
  a_path :: "string option"
  b_path :: "string option"
  diff_bytes :: string

record tag_ref =
  tag_name :: string
  tag_commit :: "py_exn + commit"
  tag_message :: "string option"

text \<open>
  A remote: \<open>urls_truthy\<close> is the truth value of the object \<open>remote.urls\<close> in the
  conditional, \<open>urls\<close> what listing it yields, \<open>refs\<close> its remote-tracking
  references.
\<close>

record remote =
  remote_name :: string
  urls_truthy :: bool
  urls :: "py_exn + string list"
  refs :: "py_exn + (string \<times> commit) list"

type_synonym tree = "(string \<times> string) list"

record repo =
  branches :: "(string \<times> commit) list"
  HEAD :: head_ref
  tags :: "tag_ref list"
  remotes :: "remote list"
  index :: tree
  worktree :: tree

text \<open>
  The engine is outside the client. Its mutating calls are state transformers that
  return the repository as the call left it and the exception it raised, if any; its
  queries return a value or raise. \<open>strftime\<close> is
  \<open>datetime.fromtimestamp(t).strftime(fmt)\<close> in the local time zone. Every wrapper
  takes the engine as a parameter, so what is proved holds for any engine.

  \<open>repo.heads\<close> is a list object of the engine that resolves a string index as an
  attribute of itself before it looks for a branch of that name. \<open>list_attribute\<close>
  says which names are attributes of that object (the methods of a Python list such as
  \<open>copy\<close>, \<open>index\<close> or \<open>pop\<close>, among others) and gives the Python type of the
  attribute's value.
\<close>

record engine =
  create_head :: "string \<Rightarrow> repo \<Rightarrow> repo \<times> py_exn option"
  checkout :: "string \<Rightarrow> repo \<Rightarrow> repo \<times> py_exn option"
  merge_tree :: "commit \<Rightarrow> commit \<Rightarrow> repo \<Rightarrow> repo \<times> py_exn option"
  index_commit :: "string \<Rightarrow> commit list \<Rightarrow> repo \<Rightarrow> repo \<times> py_exn option"
  merge_base :: "repo \<Rightarrow> commit \<Rightarrow> commit \<Rightarrow> py_exn + commit list"
  iter_commits ::
    "repo \<Rightarrow> int \<Rightarrow> string option \<Rightarrow> string option \<Rightarrow> string option \<Rightarrow> py_exn + commit list"
  commit_of :: "repo \<Rightarrow> string \<Rightarrow> py_exn + commit"
  index_diff :: "repo \<Rightarrow> diff_other \<Rightarrow> py_exn + diff_item list"
  commit_diff :: "repo \<Rightarrow> commit \<Rightarrow> diff_other \<Rightarrow> py_exn + diff_item list"
  blame_of :: "repo \<Rightarrow> string \<Rightarrow> string \<Rightarrow> py_exn + (commit \<times> string list) list"
  strftime :: "int \<Rightarrow> string \<Rightarrow> py_exn + string"
  list_attribute :: "string \<Rightarrow> string option"

text \<open>
  Reading references. \<open>repo.active_branch\<close> raises \<open>TypeError\<close> when \<open>HEAD\<close> is
  detached; \<open>repo.head.commit\<close> raises \<open>ValueError\<close> when \<open>HEAD\<close> names a branch
  without a tip. \<open>repo.heads[name]\<close> yields the attribute of the list object when
  the name is one, else the branch of that name, and raises \<open>IndexError\<close> when there
  is neither. A branch object reads its \<open>commit\<close> from the repository each time it
  is asked for; any other object has no attribute \<open>commit\<close> and no method
  \<open>checkout\<close>.
\<close>

definition branch_names :: "repo \<Rightarrow> string list" where
  "branch_names r = map fst (branches r)"

definition active_branch_name :: "repo \<Rightarrow> py_exn + string" where
  "active_branch_name r =
     (case HEAD r of
        Attached n \<Rightarrow> Inr n
      | Detached c \<Rightarrow>
          Inl (TypeError (''HEAD is a detached symbolic reference as it points to ''
                          @ quoted (hexsha c))))"

definition head_commit :: "repo \<Rightarrow> py_exn + commit" where
  "head_commit r =
     (case HEAD r of
        Detached c \<Rightarrow> Inr c
      | Attached n \<Rightarrow>
          (case map_of (branches r) n of
             Some c \<Rightarrow> Inr c
           | None \<Rightarrow> Inl (ValueError (''Reference at '' @ quoted (''refs/heads/'' @ n)
                                       @ '' does not exist''))))"

definition head_is_valid :: "repo \<Rightarrow> bool" where
  "head_is_valid r = (case head_commit r of Inl _ \<Rightarrow> False | Inr _ \<Rightarrow> True)"

datatype head_obj = Branch string | ListAttribute string

definition heads_getitem :: "engine \<Rightarrow> repo \<Rightarrow> string \<Rightarrow> py_exn + head_obj" where
  "heads_getitem eng r n =
     (case list_attribute eng n of
        Some ty \<Rightarrow> Inr (ListAttribute ty)
      | None \<Rightarrow>
          (if n \<in> set (branch_names r) then Inr (Branch n)
           else Inl (IndexError (''No item found with id '' @ quoted n))))"

definition no_attribute :: "string \<Rightarrow> string \<Rightarrow> py_exn" where
  "no_attribute ty attr =
     AttributeError (quoted ty @ '' object has no attribute '' @ quoted attr)"



text \<open>
  The two handler shapes of the wrappers: \<open>except GitCommandError\<close> printing
  \<open>e.stderr\<close> before \<open>except Exception\<close> printing \<open>str(e)\<close>, and the second alone.
\<close>

definition handle_git :: "string \<Rightarrow> string \<Rightarrow> py_exn \<Rightarrow> string" where
  "handle_git git_prefix other_prefix e =
     (case e of
        GitCommandError err _ \<Rightarrow> git_prefix @ err
      | _ \<Rightarrow> other_prefix @ exn_text e)"

definition error_descr :: "string \<Rightarrow> json" where
  "error_descr msg = JDict [(''error'', JStr msg)]"

subsection \<open>Branch operations\<close>

definition checkout_step ::
  "engine \<Rightarrow> repo \<Rightarrow> string \<Rightarrow> repo \<times> (py_exn + bool \<times> string)" where
  "checkout_step eng r branch_name =
     (case heads_getitem eng r branch_name of
        Inl e \<Rightarrow> (r, Inl e)
      | Inr (ListAttribute ty) \<Rightarrow> (r, Inl (no_attribute ty ''checkout''))
      | Inr (Branch n) \<Rightarrow>
          (case checkout eng n r of
             (r', Some e) \<Rightarrow> (r', Inl e)
           | (r', None) \<Rightarrow> (r', Inr (True, ''Switched to branch '' @ quoted branch_name))))"

definition switch_body ::
  "engine \<Rightarrow> repo \<Rightarrow> string \<Rightarrow> bool \<Rightarrow> repo \<times> (py_exn + bool \<times> string)" where
  "switch_body eng r branch_name create =
     (let branch_exists = (branch_name \<in> set (branch_names r)) in
      if \<not> branch_exists \<and> create then
        (case create_head eng branch_name r of
           (r1, Some e) \<Rightarrow> (r1, Inl e)
         | (r1, None) \<Rightarrow> checkout_step eng r1 branch_name)
      else if \<not> branch_exists then
        (r, Inr (False, ''Branch '' @ quoted branch_name
                        @ '' does not exist. Use --create to create it''))
      else checkout_step eng r branch_name)"

definition switch_branch ::
  "engine \<Rightarrow> repo option \<Rightarrow> string \<Rightarrow> bool \<Rightarrow> repo option \<times> (bool \<times> string)" where
  "switch_branch eng rp branch_name create =
     (case rp of
        None \<Rightarrow> (None, (False, ''Not a git repository''))
      | Some r \<Rightarrow>
          (case switch_body eng r branch_name create of
             (r', Inr res) \<Rightarrow> (Some r', res)
           | (r', Inl e) \<Rightarrow>
               (Some r', (False, handle_git ''Git error: '' ''Error switching branch: '' e))))"





text \<open>\<open>list_branches\<close>: the local branches, then every remote-tracking reference.\<close>

definition short_hash :: "commit \<Rightarrow> string" where
  "short_hash c = take 7 (hexsha c)"

definition branch_entry :: "string \<Rightarrow> string \<Rightarrow> bool \<Rightarrow> commit \<Rightarrow> json" where
  "branch_entry n kind cur c =
     JDict [(''name'', JStr n), (''type'', JStr kind), (''current'', JBool cur),
            (''commit'', JStr (short_hash c))]"

definition remote_entries :: "remote \<Rightarrow> py_exn + json list" where
  "remote_entries rm =
     and_then (refs rm) (\<lambda>rs. Inr (map (\<lambda>(n, c). branch_entry n ''remote'' False c) rs))"

definition list_branches_body :: "repo \<Rightarrow> bool \<Rightarrow> py_exn + json list" where
  "list_branches_body r all_branches =
     and_then (active_branch_name r) (\<lambda>current_branch.
       (let local = map (\<lambda>(n, c). branch_entry n ''local'' (n = current_branch) c) (branches r)
        in if all_branches then
             and_then (for_each remote_entries (remotes r)) (\<lambda>rs. Inr (local @ concat rs))
           else Inr local))"

definition list_branches :: "repo option \<Rightarrow> bool \<Rightarrow> bool \<times> json list" where
  "list_branches rp all_branches =
     (case rp of
        None \<Rightarrow> (False, [error_descr ''Not a git repository''])
      | Some r \<Rightarrow>
          (case list_branches_body r all_branches of
             Inr bs \<Rightarrow> (True, bs)
           | Inl e \<Rightarrow> (False, [error_descr (''Error listing branches: '' @ exn_text e)])))"

subsection \<open>Remotes\<close>

definition remote_entry :: "remote \<Rightarrow> py_exn + json" where
  "remote_entry rm =
     and_then
       (if urls_truthy rm then
          and_then (urls rm) (\<lambda>us.
            case us of [] \<Rightarrow> Inl (IndexError ''list index out of range'') | u # _ \<Rightarrow> Inr u)
        else Inr ''No URL'')
       (\<lambda>url. Inr (JDict [(''name'', JStr (remote_name rm)), (''url'', JStr url)]))"

definition list_remotes :: "repo option \<Rightarrow> bool \<times> json list" where
  "list_remotes rp =
     (case rp of
        None \<Rightarrow> (False, [error_descr ''Not a git repository''])
      | Some r \<Rightarrow>
          (case for_each remote_entry (remotes r) of
             Inr rs \<Rightarrow> (True, rs)
           | Inl e \<Rightarrow> (False, [error_descr (''Error listing remotes: '' @ exn_text e)])))"

subsection \<open>History and diff operations\<close>

definition author_line :: "commit \<Rightarrow> string" where
  "author_line c = author_name c @ '' <'' @ author_email c @ ''>''"

definition commit_entry :: "engine \<Rightarrow> commit \<Rightarrow> py_exn + json" where
  "commit_entry eng c =
     and_then (strftime eng (committed_date c) ''%Y-%m-%d %H:%M:%S'') (\<lambda>date.
       Inr (JDict [(''hash'', JStr (short_hash c)),
                   (''full_hash'', JStr (hexsha c)),
                   (''author'', JStr (author_line c)),
                   (''date'', JStr date),
                   (''message'', JStr (strip (message c))),
                   (''parents'', JList (map (\<lambda>p. JStr (take 7 p)) (parents c)))]))"

definition log_body ::
  "engine \<Rightarrow> repo \<Rightarrow> int \<Rightarrow> string option \<Rightarrow> string option \<Rightarrow> string option
     \<Rightarrow> py_exn + json list" where
  "log_body eng r max_count branch author since =
     and_then
       (iter_commits eng r max_count
          (if truthy branch then branch else None)
          (if truthy author then author else None)
          (if truthy since then since else None))
       (for_each (commit_entry eng))"

definition log ::
  "engine \<Rightarrow> repo option \<Rightarrow> int \<Rightarrow> string option \<Rightarrow> string option \<Rightarrow> string option
     \<Rightarrow> bool \<times> json list" where
  "log eng rp max_count branch author since =
     (case rp of
        None \<Rightarrow> (False, [error_descr ''Not a git repository''])
      | Some r \<Rightarrow>
          (case log_body eng r max_count branch author since of
             Inr commits \<Rightarrow> (True, commits)
           | Inl e \<Rightarrow>
               (False, [error_descr (handle_git ''Git log error: '' ''Error getting log: '' e)])))"

text \<open>
  \<open>diff\<close>. The mode decides which comparison the engine is asked for; the four
  branches of the source then run the same accumulation loop over its items.
\<close>

definition select_items ::
  "engine \<Rightarrow> repo \<Rightarrow> string option \<Rightarrow> string option \<Rightarrow> bool \<Rightarrow> py_exn + diff_item list" where
  "select_items eng r commit1 commit2 cached =
     (if cached then
        (if head_is_valid r then
           and_then (head_commit r) (\<lambda>hc. index_diff eng r (Treeish hc))
         else index_diff eng r WorkingTree)
      else if truthy commit1 \<and> truthy commit2 then
        and_then (commit_of eng r (the commit1)) (\<lambda>commit_obj1.
          and_then (commit_of eng r (the commit2)) (\<lambda>commit_obj2.
            commit_diff eng r commit_obj1 (Treeish commit_obj2)))
      else if truthy commit1 then
        and_then (commit_of eng r (the commit1)) (\<lambda>commit_obj.
          commit_diff eng r commit_obj WorkingTree)
      else index_diff eng r WorkingTree)"

definition render_item :: "diff_item \<Rightarrow> string" where
  "render_item d =
     [CHR 0x0A] @ ''--- a/'' @ fmt_opt (a_path d) @ [CHR 0x0A]
     @ ''+++ b/'' @ fmt_opt (b_path d) @ [CHR 0x0A]
     @ (if diff_bytes d \<noteq> [] then diff_bytes d else [])"

definition render_items :: "diff_item list \<Rightarrow> string" where
  "render_items ds = concat (map render_item ds)"

fun filter_lines :: "string \<Rightarrow> bool \<Rightarrow> string list \<Rightarrow> string list" where
  "filter_lines file_path include [] = []"
| "filter_lines file_path include (line # lines) =
     (let include' =
            (if startswith line ''---'' \<or> startswith line ''+++''
             then contains line file_path else include)
      in (if include' then [line] else []) @ filter_lines file_path include' lines)"

definition filtered_text :: "string option \<Rightarrow> string \<Rightarrow> string" where
  "filtered_text file_path diff_text =
     (if truthy file_path \<and> diff_text \<noteq> [] then
        join [CHR 0x0A] (filter_lines (the file_path) False (split_on (CHR 0x0A) diff_text))
      else diff_text)"

definition diff ::
  "engine \<Rightarrow> repo option \<Rightarrow> string option \<Rightarrow> string option \<Rightarrow> bool \<Rightarrow> string option
     \<Rightarrow> bool \<times> string" where
  "diff eng rp commit1 commit2 cached file_path =
     (case rp of
        None \<Rightarrow> (False, ''Not a git repository'')
      | Some r \<Rightarrow>
          (case select_items eng r commit1 commit2 cached of
             Inl e \<Rightarrow> (False, handle_git ''Git diff error: '' ''Error getting diff: '' e)
           | Inr items \<Rightarrow>
               (let diff_text = filtered_text file_path (render_items items)
                in (True, if diff_text = [] then ''No differences found'' else diff_text))))"

text \<open>
  \<open>blame\<close>. The inner loop numbers the lines of one entry of the engine's blame
  list from 1 (\<open>enumerate(lines, 1)\<close>); \<open>continue\<close> skips a line, \<open>break\<close> leaves
  the entry.
\<close>

definition blame_entry :: "engine \<Rightarrow> commit \<Rightarrow> int \<Rightarrow> string \<Rightarrow> py_exn + json" where
  "blame_entry eng c i line =
     and_then (strftime eng (committed_date c) ''%Y-%m-%d'') (\<lambda>date.
       Inr (JDict [(''line_number'', JInt i),
                   (''commit'', JStr (short_hash c)),
                   (''author'', JStr (author_name c)),
                   (''date'', JStr date),
                   (''content'', JStr line)]))"

fun blame_lines ::
  "engine \<Rightarrow> commit \<Rightarrow> int option \<Rightarrow> int option \<Rightarrow> int \<Rightarrow> string list \<Rightarrow> py_exn + json list"
  where
  "blame_lines eng c line_start line_end i [] = Inr []"
| "blame_lines eng c line_start line_end i (line # lines) =
     (if truthy_int line_start \<and> i < the line_start then
        blame_lines eng c line_start line_end (i + 1) lines
      else if truthy_int line_end \<and> i > the line_end then Inr []
      else
        (case blame_entry eng c i line of
           Inl e \<Rightarrow> Inl e
         | Inr d \<Rightarrow>
             (case blame_lines eng c line_start line_end (i + 1) lines of
                Inl e \<Rightarrow> Inl e
              | Inr ds \<Rightarrow> Inr (d # ds))))"

definition blame_body ::
  "engine \<Rightarrow> repo \<Rightarrow> string \<Rightarrow> int option \<Rightarrow> int option \<Rightarrow> py_exn + json list" where
  "blame_body eng r file_path line_start line_end =
     and_then (blame_of eng r ''HEAD'' file_path) (\<lambda>blame_list.
       and_then
         (for_each (\<lambda>(c, lines). blame_lines eng c line_start line_end 1 lines) blame_list)
         (\<lambda>groups. Inr (concat groups)))"

definition blame ::
  "engine \<Rightarrow> repo option \<Rightarrow> string \<Rightarrow> int option \<Rightarrow> int option \<Rightarrow> bool \<times> json list" where
  "blame eng rp file_path line_start line_end =
     (case rp of
        None \<Rightarrow> (False, [error_descr ''Not a git repository''])
      | Some r \<Rightarrow>
          (case blame_body eng r file_path line_start line_end of
             Inr blame_info \<Rightarrow> (True, blame_info)
           | Inl e \<Rightarrow>
               (False,
                [error_descr (handle_git ''Git blame error: '' ''Error getting blame: '' e)])))"

definition tag_entry :: "tag_ref \<Rightarrow> py_exn + json" where
  "tag_entry t =
     and_then (tag_commit t) (\<lambda>c.
       Inr (JDict [(''name'', JStr (tag_name t)),
                   (''commit'', JStr (short_hash c)),
                   (''message'', JStr (case tag_message t of Some m \<Rightarrow> m | None \<Rightarrow> ''''))]))"

definition get_tags :: "repo option \<Rightarrow> bool \<times> json list" where
  "get_tags rp =
     (case rp of
        None \<Rightarrow> (False, [error_descr ''Not a git repository''])
      | Some r \<Rightarrow>
          (case for_each tag_entry (tags r) of
             Inr ts \<Rightarrow> (True, ts)
           | Inl e \<Rightarrow> (False, [error_descr (''Error getting tags: '' @ exn_text e)])))"

section \<open>SSH key management\<close>

text \<open>
  The file system is a map from paths to nodes; a file has its bytes and its
  permission bits. What the operating system and the cryptography library answer is an
  input: the bytes of the generated key in its two encodings, for each system call the
  exception it raises, if any (for a write also how many bytes went out before), and
  what \<open>str.encode()\<close> makes of a text: its UTF-8 bytes, or an exception for a text
  that has none.
\<close>

datatype node = File string nat | Dir nat

type_synonym filesystem = "string \<Rightarrow> node option"

record ssh_key_manager =
  ssh_dir :: string
  private_key_path :: string

definition public_key_path :: "ssh_key_manager \<Rightarrow> string" where
  "public_key_path m = private_key_path m @ ''.pub''"

record os_answers =
  stat_out :: "string \<Rightarrow> py_exn option"
  mkdir_out :: "py_exn option"
  private_bytes_out :: "py_exn + string"
  public_bytes_out :: "py_exn + string"
  encode_out :: "string \<Rightarrow> py_exn + string"
  open_out :: "string \<Rightarrow> py_exn option"
  write_out :: "string \<Rightarrow> (py_exn \<times> nat) option"
  chmod_out :: "string \<Rightarrow> py_exn option"
  new_file_mode :: nat

text \<open>
  \<open>Path.exists()\<close> asks the system for the status of the path. It answers
  \<open>False\<close> when the system reports that there is no such file, and it lets every
  other error of the system through, a denied permission on the directory for one:
  \<open>stat_out\<close> is that error, if there is one. \<open>check_ssh_key_exists\<close> asks for
  the public key only when the private key exists.
\<close>

definition exists_path :: "os_answers \<Rightarrow> filesystem \<Rightarrow> string \<Rightarrow> py_exn + bool" where
  "exists_path os fs p =
     (case stat_out os p of
        Some e \<Rightarrow> Inl e
      | None \<Rightarrow> Inr (fs p \<noteq> None))"

definition check_ssh_key_exists ::
  "os_answers \<Rightarrow> ssh_key_manager \<Rightarrow> filesystem \<Rightarrow> py_exn + bool" where
  "check_ssh_key_exists os m fs =
     (case exists_path os fs (private_key_path m) of
        Inl e \<Rightarrow> Inl e
      | Inr private_exists \<Rightarrow>
          (if private_exists then exists_path os fs (public_key_path m) else Inr False))"

text \<open>\<open>mkdir(mode=0o700, exist_ok=True)\<close>: nothing to do on a directory.\<close>

definition mkdir_700 :: "os_answers \<Rightarrow> filesystem \<Rightarrow> string \<Rightarrow> filesystem \<times> py_exn option" where
  "mkdir_700 os fs d =
     (case fs d of
        Some (Dir _) \<Rightarrow> (fs, None)
      | Some (File _ _) \<Rightarrow> (fs, Some (OSError (''File exists: '' @ quoted d)))
      | None \<Rightarrow>
          (case mkdir_out os of
             Some e \<Rightarrow> (fs, Some e)
           | None \<Rightarrow> (fs(d \<mapsto> Dir 448), None)))"

text \<open>
  \<open>open(path, 'wb')\<close> creates the file or empties it; the write that follows puts
  the bytes there, or the bytes that went out before it failed. \<open>os.chmod\<close> sets
  the permission bits.
\<close>

definition open_wb :: "os_answers \<Rightarrow> filesystem \<Rightarrow> string \<Rightarrow> filesystem \<times> py_exn option" where
  "open_wb os fs path =
     (case fs path of
        Some (Dir _) \<Rightarrow> (fs, Some (OSError (''[Errno 21] Is a directory: '' @ quoted path)))
      | Some (File _ mode) \<Rightarrow>
          (case open_out os path of
             Some e \<Rightarrow> (fs, Some e)
           | None \<Rightarrow> (fs(path \<mapsto> File [] mode), None))
      | None \<Rightarrow>
          (case open_out os path of
             Some e \<Rightarrow> (fs, Some e)
           | None \<Rightarrow> (fs(path \<mapsto> File [] (new_file_mode os)), None)))"

definition write_bytes ::
  "os_answers \<Rightarrow> filesystem \<Rightarrow> string \<Rightarrow> string \<Rightarrow> filesystem \<times> py_exn option" where
  "write_bytes os fs path content =
     (case fs path of
        Some (File _ mode) \<Rightarrow>
          (case write_out os path of
             Some (e, n) \<Rightarrow> (fs(path \<mapsto> File (take n content) mode), Some e)
           | None \<Rightarrow> (fs(path \<mapsto> File content mode), None))
      | _ \<Rightarrow> (fs, Some (OSError (''[Errno 9] Bad file descriptor''))))"

definition chmod ::
  "os_answers \<Rightarrow> filesystem \<Rightarrow> string \<Rightarrow> nat \<Rightarrow> filesystem \<times> py_exn option" where
  "chmod os fs path mode =
     (case chmod_out os path of
        Some e \<Rightarrow> (fs, Some e)
      | None \<Rightarrow>
          (case fs path of
             None \<Rightarrow> (fs, Some (OSError (''No such file or directory: '' @ quoted path)))
           | Some (File content _) \<Rightarrow> (fs(path \<mapsto> File content mode), None)
           | Some (Dir _) \<Rightarrow> (fs(path \<mapsto> Dir mode), None)))"

text \<open>
  The \<open>try\<close> block of \<open>generate_ssh_key\<close>: the private key is written and made
  0600 (384); then the public key file is opened, the e-mail after a space is encoded
  and written behind the key, and the file is made 0644 (420). The first exception
  ends the block.
\<close>

definition generate_body ::
  "os_answers \<Rightarrow> ssh_key_manager \<Rightarrow> filesystem \<Rightarrow> string \<Rightarrow> filesystem \<times> py_exn option" where
  "generate_body os m fs email =
     (case private_bytes_out os of
        Inl e \<Rightarrow> (fs, Some e)
      | Inr private_pem \<Rightarrow>
          (case open_wb os fs (private_key_path m) of
             (fs1, Some e) \<Rightarrow> (fs1, Some e)
           | (fs1, None) \<Rightarrow>
               (case write_bytes os fs1 (private_key_path m) private_pem of
                  (fs2, Some e) \<Rightarrow> (fs2, Some e)
                | (fs2, None) \<Rightarrow>
                    (case chmod os fs2 (private_key_path m) 384 of
                       (fs3, Some e) \<Rightarrow> (fs3, Some e)
                     | (fs3, None) \<Rightarrow>
                         (case public_bytes_out os of
                            Inl e \<Rightarrow> (fs3, Some e)
                          | Inr public_ssh \<Rightarrow>
                              (case open_wb os fs3 (public_key_path m) of
                                 (fs4, Some e) \<Rightarrow> (fs4, Some e)
                               | (fs4, None) \<Rightarrow>
                                   (case encode_out os ('' '' @ email) of
                                      Inl e \<Rightarrow> (fs4, Some e)
                                    | Inr comment \<Rightarrow>
                                        (case write_bytes os fs4 (public_key_path m)
                                                (public_ssh @ comment) of
                                           (fs5, Some e) \<Rightarrow> (fs5, Some e)
                                         | (fs5, None) \<Rightarrow>
                                             chmod os fs5 (public_key_path m) 420))))))))"

definition generate_ssh_key ::
  "os_answers \<Rightarrow> ssh_key_manager \<Rightarrow> filesystem \<Rightarrow> string \<Rightarrow> bool
     \<Rightarrow> filesystem \<times> (py_exn + bool \<times> string)" where
  "generate_ssh_key os m fs email overwrite =
     (case check_ssh_key_exists os m fs of
        Inl e \<Rightarrow> (fs, Inl e)
      | Inr pair_exists \<Rightarrow>
          (if pair_exists \<and> \<not> overwrite then
             (fs, Inr (False, ''SSH key already exists at '' @ private_key_path m))
           else
             (case mkdir_700 os fs (ssh_dir m) of
                (fs1, Some e) \<Rightarrow> (fs1, Inl e)
              | (fs1, None) \<Rightarrow>
                  (case generate_body os m fs1 email of
                     (fs2, Some e) \<Rightarrow>
                       (fs2, Inr (False, ''Error generating SSH key: '' @ exn_text e))
                   | (fs2, None) \<Rightarrow>
                       (fs2, Inr (True, ''SSH key generated successfully at ''
                                        @ private_key_path m))))))"

text \<open>
  A run on which no call of the operating system or of the cryptography library
  fails and the e-mail can be encoded: both status requests are answered, the key
  directory is a directory already or can be created (and is then neither key path),
  neither key path is a directory, both encodings of the key are produced, and both
  files can be opened, written and given their mode.
\<close>

definition is_dir :: "filesystem \<Rightarrow> string \<Rightarrow> bool" where
  "is_dir fs p = (case fs p of Some (Dir _) \<Rightarrow> True | _ \<Rightarrow> False)"

definition no_call_fails ::
  "os_answers \<Rightarrow> ssh_key_manager \<Rightarrow> filesystem \<Rightarrow> string \<Rightarrow> bool" where
  "no_call_fails os m fs email =
     (stat_out os (private_key_path m) = None \<and> stat_out os (public_key_path m) = None
      \<and> (case fs (ssh_dir m) of
            Some (Dir _) \<Rightarrow> True
          | Some (File _ _) \<Rightarrow> False
          | None \<Rightarrow>
              mkdir_out os = None \<and> ssh_dir m \<noteq> private_key_path m
              \<and> ssh_dir m \<noteq> public_key_path m)
      \<and> \<not> is_dir fs (private_key_path m) \<and> \<not> is_dir fs (public_key_path m)
      \<and> (case private_bytes_out os of Inl _ \<Rightarrow> False | Inr _ \<Rightarrow> True)
      \<and> (case public_bytes_out os of Inl _ \<Rightarrow> False | Inr _ \<Rightarrow> True)
      \<and> (case encode_out os ('' '' @ email) of Inl _ \<Rightarrow> False | Inr _ \<Rightarrow> True)
      \<and> open_out os (private_key_path m) = None \<and> write_out os (private_key_path m) = None
      \<and> chmod_out os (private_key_path m) = None
      \<and> open_out os (public_key_path m) = None \<and> write_out os (public_key_path m) = None
      \<and> chmod_out os (public_key_path m) = None)"

section \<open>Concrete states\<close>

text \<open>
  The states at which the operations are evaluated below. A fresh manager holds the
  default document.
\<close>

definition fresh_manager :: config_manager where
  "fresh_manager =
     \<lparr>config = default_config ''/home/ada/.ssh/id_rsa'',
      config_file = ''/home/ada/.gitc/config.json''\<rparr>"

definition commit_a :: commit where
  "commit_a =
     \<lparr>hexsha = ''a1a1a1a1a1a1a1a1a1a1a1a1a1a1a1a1a1a1a1a1'',
      author_name = ''Ada'', author_email = ''ada@example.org'',
      committed_date = 1700000000, message = ''first line'', parents = []\<rparr>"

definition commit_b :: commit where
  "commit_b =
     \<lparr>hexsha = ''b2b2b2b2b2b2b2b2b2b2b2b2b2b2b2b2b2b2b2b2'',
      author_name = ''Bob'', author_email = ''bob@example.org'',
      committed_date = 1700086400, message = ''second line'',
      parents = [''a1a1a1a1a1a1a1a1a1a1a1a1a1a1a1a1a1a1a1a1'']\<rparr>"

text \<open>
  An engine with nothing to report: its mutating calls leave the repository as it is
  and raise nothing, its queries find nothing, and the attributes of its branch list
  are the methods of a Python list. The examples override the one answer they are
  about.
\<close>

definition list_methods :: "string list" where
  "list_methods =
     [''append'', ''clear'', ''copy'', ''count'', ''extend'', ''index'', ''insert'', ''pop'',
      ''remove'', ''reverse'', ''sort'']"

definition idle_engine :: engine where
  "idle_engine =
     \<lparr>create_head = (\<lambda>n r. (r, None)),
      checkout = (\<lambda>n r. (r, None)),
      merge_tree = (\<lambda>c b r. (r, None)),
      index_commit = (\<lambda>m ps r. (r, None)),
      merge_base = (\<lambda>r a b. Inr []),
      iter_commits = (\<lambda>r n b a s. Inr []),
      commit_of = (\<lambda>r rev. Inl (ValueError (''unknown revision '' @ quoted rev))),
      index_diff = (\<lambda>r other. Inr []),
      commit_diff = (\<lambda>r c other. Inr []),
      blame_of = (\<lambda>r rev path. Inr []),
      strftime = (\<lambda>t fmt. Inr ''2023-11-14''),
      list_attribute =
        (\<lambda>n. if n \<in> set list_methods then Some ''builtin_function_or_method'' else None)\<rparr>"

text \<open>
  Two branches, \<open>main\<close> and \<open>feature\<close>, both at \<open>commit_b\<close>, with \<open>main\<close>
  checked out; and the same repository with \<open>HEAD\<close> detached at that commit.
\<close>

definition main_repo :: repo where
  "main_repo =
     \<lparr>branches = [(''main'', commit_b), (''feature'', commit_b)], HEAD = Attached ''main'',
      tags = [], remotes = [],
      index = [(''notes.txt'', ''one'')], worktree = [(''notes.txt'', ''one'')]\<rparr>"

definition detached_repo :: repo where
  "detached_repo = main_repo\<lparr>HEAD := Detached commit_b\<rparr>"



text \<open>
  A repository before its first commit: \<open>notes.txt\<close> is staged and the working tree
  has not changed since. For the engine \<open>staging_engine\<close> of that state the index
  shows nothing against the working tree and the staged file against the empty tree.
  \<open>editing_engine\<close> is an engine of a state in which \<open>notes.txt\<close> has been edited
  since it was staged.
\<close>

definition unborn_repo :: repo where
  "unborn_repo =
     \<lparr>branches = [], HEAD = Attached ''main'', tags = [], remotes = [],
      index = [(''notes.txt'', ''one'')], worktree = [(''notes.txt'', ''one'')]\<rparr>"

definition notes_item :: diff_item where
  "notes_item = \<lparr>a_path = Some ''notes.txt'', b_path = Some ''notes.txt'', diff_bytes = []\<rparr>"

definition editing_engine :: engine where
  "editing_engine =
     idle_engine\<lparr>index_diff :=
       (\<lambda>r other. case other of WorkingTree \<Rightarrow> Inr [notes_item] | _ \<Rightarrow> Inr [])\<rparr>"

definition staging_engine :: engine where
  "staging_engine =
     idle_engine\<lparr>index_diff :=
       (\<lambda>r other. case other of NullTree \<Rightarrow> Inr [notes_item] | _ \<Rightarrow> Inr [])\<rparr>"

text \<open>
  A file of two lines: the first last touched by \<open>commit_a\<close>, the second by
  \<open>commit_b\<close>, so the engine's blame list has two entries of one line each.
\<close>

definition blame_engine :: engine where
  "blame_engine =
     idle_engine\<lparr>blame_of := (\<lambda>r rev path. Inr [(commit_a, [''one'']), (commit_b, [''two''])])\<rparr>"

text \<open>Key managers and file systems for the SSH operations.\<close>

definition ada_keys :: ssh_key_manager where
  "ada_keys = \<lparr>ssh_dir = ''/home/ada/.ssh'', private_key_path = ''/home/ada/.ssh/id_rsa''\<rparr>"

definition both_keys_fs :: filesystem where
  "both_keys_fs =
     [''/home/ada/.ssh'' \<mapsto> Dir 448,
      ''/home/ada/.ssh/id_rsa'' \<mapsto> File ''OLD PRIVATE'' 384,
      ''/home/ada/.ssh/id_rsa.pub'' \<mapsto> File ''OLD PUBLIC'' 420]"

definition public_only_fs :: filesystem where
  "public_only_fs =
     [''/home/ada/.ssh'' \<mapsto> Dir 448,
      ''/home/ada/.ssh/id_rsa.pub'' \<mapsto> File ''OLD PUBLIC'' 420]"

definition willing_os :: os_answers where
  "willing_os =
     \<lparr>stat_out = (\<lambda>p. None),
      mkdir_out = None,
      private_bytes_out = Inr ''NEW PRIVATE'',
      public_bytes_out = Inr ''ssh-rsa NEW'',
      encode_out = Inr,
      open_out = (\<lambda>p. None),
      write_out = (\<lambda>p. None),
      chmod_out = (\<lambda>p. None),
      new_file_mode = 420\<rparr>"

definition locked_os :: os_answers where
  "locked_os =
     willing_os\<lparr>stat_out := (\<lambda>p. Some (OSError (''[Errno 13] Permission denied: '' @ quoted p)))\<rparr>"

definition readonly_os :: os_answers where
  "readonly_os =
     willing_os\<lparr>open_out := (\<lambda>p. Some (OSError (''[Errno 13] Permission denied: '' @ quoted p)))\<rparr>"

section \<open>Properties of the configuration store\<close>








text \<open>
  \<open>set\<close> returns exactly on the documents and keys whose descent meets mappings
  only; on every other it raises.
\<close>

lemma mappings_along_fresh: "mappings_along (JDict []) (k # ks)"
  by (cases ks) simp_all

lemma set_walk_returns_iff:
  "snd (set_walk cfg ks v) = None \<longleftrightarrow> mappings_along cfg ks"
proof (induction cfg ks v rule: set_walk.induct)
  case (1 cfg v)
  then show ?case by simp
next
  case (2 cfg k v)
  then show ?case by (cases cfg) (simp_all add: py_setitem_def)
next
  case (3 cfg k k' ks v)
  show ?case
  proof (cases cfg)
    case (JDict d)
    show ?thesis
    proof (cases "map_of d k")
      case None
      then have absent: "py_in k cfg = Inr False"
        using JDict by (simp add: py_in_def map_of_eq_None_iff)
      have made: "py_setitem cfg k (JDict []) = Inr (JDict (AList.update k (JDict []) d))"
        using JDict by (simp add: py_setitem_def)
      have got: "py_getitem (JDict (AList.update k (JDict []) d)) k = Inr (JDict [])"
        by (simp add: py_getitem_def AList.update_conv')
      from "3.IH"[OF absent _ got] made
      have "snd (set_walk (JDict []) (k' # ks) v) = None"
        by (simp add: mappings_along_fresh)
      with absent made got JDict None show ?thesis
        by (simp add: split_beta)
    next
      case (Some child)
      then have present: "py_in k cfg = Inr True"
        using JDict by (force simp: py_in_def dest: map_of_SomeD)
      have got: "py_getitem cfg k = Inr child"
        using JDict Some by (simp add: py_getitem_def)
      from "3.IH"[OF present _ got]
      have "snd (set_walk child (k' # ks) v) = None \<longleftrightarrow> mappings_along child (k' # ks)"
        by simp
      with present got JDict Some show ?thesis
        by (simp add: split_beta)
    qed
  qed (auto simp: py_in_def py_setitem_def py_getitem_def split: if_splits)
qed

lemma set_cfg_raises_iff:
  "(\<exists>e. snd (set_cfg io cm k v) = Inl e) \<longleftrightarrow> \<not> mappings_along (config cm) (split_on CHR ''.'' k)"
proof (cases "set_walk (config cm) (split_on CHR ''.'' k) v")
  case (Pair cfg' r)
  then have "r = None \<longleftrightarrow> mappings_along (config cm) (split_on CHR ''.'' k)"
    using set_walk_returns_iff [of "config cm" "split_on CHR ''.'' k" v] by simp
  with Pair show ?thesis by (cases r) (simp_all add: set_cfg_def)
qed

text \<open>
  C1. No public operation lets an exception escape; in particular \<open>set\<close> and
  \<open>delete\<close> return a failure pair when an intermediate segment of the key resolves to
  a value that is not a mapping. The code does not: on the default document,
  \<open>set('user.name.first', 'Ada')\<close> reaches the string under \<open>user.name\<close> and the
  assignment raises \<open>TypeError\<close>; \<open>delete('preferences.verbose.level')\<close> reaches the
  boolean under \<open>preferences.verbose\<close> and the membership test raises \<open>TypeError\<close>.
  Neither method has a handler, so the exception leaves the call, whatever the file
  system would have answered.
\<close>

theorem config_set_delete_raise:
  "snd (set_cfg io fresh_manager ''user.name.first'' (JStr ''Ada''))
     = Inl (TypeError (quoted ''str'' @ '' object does not support item assignment''))
   \<and> snd (delete io fresh_manager ''preferences.verbose.level'')
     = Inl (TypeError (''argument of type '' @ quoted ''bool'' @ '' is not iterable''))"
  by (simp add: set_cfg_def delete_def fresh_manager_def default_config_def py_in_def
      py_getitem_def py_setitem_def py_delitem_def put_back_def type_name_def quoted_def)





section \<open>Properties of the branch operations\<close>





text \<open>
  C8. For a branch name that is not a local branch of the repository,
  \<open>switch_branch(name, create=False)\<close> fails with the message that the branch does not
  exist and leaves the repository as it found it: nothing is checked out, so the
  working tree, the index and \<open>HEAD\<close> are unchanged. This holds for any engine.
\<close>

theorem switch_missing_branch:
  "branch_name \<notin> set (branch_names r) \<Longrightarrow>
   switch_branch eng (Some r) branch_name False
     = (Some r, (False, ''Branch '' @ quoted branch_name
                        @ '' does not exist. Use --create to create it''))"
  by (simp add: switch_branch_def switch_body_def)

text \<open>Switching to \<open>hotfix\<close> where only \<open>main\<close> and \<open>feature\<close> exist.\<close>

theorem switch_missing_branch_witness:
  "''hotfix'' \<notin> set (branch_names main_repo)
   \<and> switch_branch idle_engine (Some main_repo) ''hotfix'' False
       = (Some main_repo, (False, ''Branch '' @ quoted ''hotfix''
                                  @ '' does not exist. Use --create to create it''))"
proof -
  have h: "''hotfix'' \<notin> set (branch_names main_repo)"
    by (simp add: branch_names_def main_repo_def)
  from switch_missing_branch [OF h, of idle_engine] h show ?thesis by simp
qed

section \<open>Properties of the history and diff operations\<close>

text \<open>
  Which comparison \<open>diff\<close> asks the engine for: with \<open>cached\<close> set and no valid
  \<open>HEAD\<close> it is the one the call without arguments asks for.
\<close>

lemma select_items_cached_unborn:
  "\<not> head_is_valid r \<Longrightarrow> select_items eng r commit1 commit2 True = index_diff eng r WorkingTree"
  by (simp add: select_items_def)

lemma select_items_no_arguments:
  "select_items eng r None None False = index_diff eng r WorkingTree"
  by (simp add: select_items_def truthy_def)

text \<open>
  C4. With \<open>cached\<close> set in a repository without commits, the diff should compare
  the index with the empty tree and so show what is staged. The code asks for
  \<open>index.diff(None)\<close> there, the comparison its own last branch labels "unstaged
  changes (working directory vs index)". In the repository below \<open>notes.txt\<close> is
  staged and untouched since: the comparison with the empty tree has one entry and a
  non-empty rendering, yet \<open>diff(cached=True)\<close> answers "No differences found", the
  same as \<open>diff()\<close>.
\<close>

theorem diff_cached_unborn_reads_working_tree:
  "\<not> head_is_valid unborn_repo
   \<and> index_diff staging_engine unborn_repo NullTree = Inr [notes_item]
   \<and> render_items [notes_item] \<noteq> []
   \<and> diff staging_engine (Some unborn_repo) None None True None
       = (True, ''No differences found'')
   \<and> diff staging_engine (Some unborn_repo) None None True None
       = diff staging_engine (Some unborn_repo) None None False None"
  by (simp add: head_is_valid_def head_commit_def unborn_repo_def staging_engine_def
      idle_engine_def diff_def select_items_def truthy_def render_items_def render_item_def
      filtered_text_def)

text \<open>A handler's message starts with its prefix.\<close>

lemma handle_git_nonempty: "gp \<noteq> [] \<Longrightarrow> op \<noteq> [] \<Longrightarrow> handle_git gp op e \<noteq> []"
  by (cases e) (simp_all add: handle_git_def)

text \<open>
  C5. In every mode, when the engine's items render (and, with a file filter, filter)
  to the empty text, \<open>diff\<close> returns success with exactly "No differences found"; in
  particular \<open>diff()\<close> without arguments does when the index shows nothing against
  the working tree. And no call of \<open>diff\<close>, successful or not, returns the empty
  string.
\<close>

theorem diff_empty_sentinel:
  "(select_items eng r commit1 commit2 cached = Inr items
      \<and> filtered_text file_path (render_items items) = []
    \<longrightarrow> diff eng (Some r) commit1 commit2 cached file_path = (True, ''No differences found''))
   \<and> (index_diff eng r WorkingTree = Inr []
    \<longrightarrow> diff eng (Some r) None None False None = (True, ''No differences found''))
   \<and> snd (diff eng rp commit1 commit2 cached file_path) \<noteq> []"
proof (intro conjI impI)
  assume "select_items eng r commit1 commit2 cached = Inr items
      \<and> filtered_text file_path (render_items items) = []"
  then show "diff eng (Some r) commit1 commit2 cached file_path = (True, ''No differences found'')"
    by (simp add: diff_def)
next
  assume "index_diff eng r WorkingTree = Inr []"
  then show "diff eng (Some r) None None False None = (True, ''No differences found'')"
    by (simp add: diff_def select_items_no_arguments render_items_def filtered_text_def)
next
  show "snd (diff eng rp commit1 commit2 cached file_path) \<noteq> []"
  proof (cases rp)
    case None
    then show ?thesis by (simp add: diff_def)
  next
    case (Some r')
    then show ?thesis
      by (cases "select_items eng r' commit1 commit2 cached")
         (simp_all add: diff_def Let_def handle_git_nonempty)
  qed
qed

text \<open>
  An edited \<open>notes.txt\<close> filtered for \<open>other.txt\<close> leaves no line; a clean working
  tree leaves no item.
\<close>

theorem diff_empty_sentinel_witness:
  "(select_items editing_engine main_repo None None False = Inr [notes_item]
      \<and> filtered_text (Some ''other.txt'') (render_items [notes_item]) = [])
   \<and> diff editing_engine (Some main_repo) None None False (Some ''other.txt'')
       = (True, ''No differences found'')
   \<and> index_diff idle_engine main_repo WorkingTree = Inr []
   \<and> diff idle_engine (Some main_repo) None None False None = (True, ''No differences found'')"
proof -
  have h1: "select_items editing_engine main_repo None None False = Inr [notes_item]
      \<and> filtered_text (Some ''other.txt'') (render_items [notes_item]) = []"
    by (simp add: select_items_def truthy_def editing_engine_def idle_engine_def
        filtered_text_def render_items_def render_item_def notes_item_def fmt_opt_def
        startswith_def)
  have h2: "index_diff idle_engine main_repo WorkingTree = Inr []"
    by (simp add: idle_engine_def)
  note filtered = diff_empty_sentinel
         [where eng = editing_engine and r = main_repo and ?commit1.0 = None and ?commit2.0 = None
            and cached = False and items = "[notes_item]" and file_path = "Some ''other.txt''"]
  note plain = diff_empty_sentinel [where eng = idle_engine and r = main_repo]
  from filtered plain h1 h2 show ?thesis by blast
qed

text \<open>
  C7. \<open>blame\<close> should number each line by its position in the file and restrict a
  range by that position. The code numbers the lines of each entry of the engine's
  blame list from 1 again. For the two-line file whose lines were last touched by
  different commits, both lines are reported as line 1, and the range from 2 to 2
  returns nothing although the file has a second line.
\<close>

theorem blame_numbers_restart_per_entry:
  "blame blame_engine (Some main_repo) ''notes.txt'' None None
     = (True,
        [JDict [(''line_number'', JInt 1), (''commit'', JStr ''a1a1a1a''),
                (''author'', JStr ''Ada''), (''date'', JStr ''2023-11-14''),
                (''content'', JStr ''one'')],
         JDict [(''line_number'', JInt 1), (''commit'', JStr ''b2b2b2b''),
                (''author'', JStr ''Bob''), (''date'', JStr ''2023-11-14''),
                (''content'', JStr ''two'')]])
   \<and> blame blame_engine (Some main_repo) ''notes.txt'' (Some 2) (Some 2) = (True, [])"
  by (simp add: blame_def blame_body_def blame_engine_def idle_engine_def and_then_def
      blame_entry_def truthy_int_def short_hash_def commit_a_def commit_b_def)

text \<open>
  C9. Whenever \<open>log\<close>, \<open>blame\<close>, \<open>get_tags\<close>, \<open>list_branches\<close> or
  \<open>list_remotes\<close> reports failure, for any engine, any repository handle (an invalid
  one included) and any arguments, its payload is a list of exactly one element, the
  mapping with the single key \<open>error\<close>.
\<close>

theorem listing_failure_shape:
  "(\<not> fst (log eng rp max_count branch author since)
      \<longrightarrow> (\<exists>msg. snd (log eng rp max_count branch author since) = [error_descr msg]))
   \<and> (\<not> fst (blame eng rp file_path line_start line_end)
      \<longrightarrow> (\<exists>msg. snd (blame eng rp file_path line_start line_end) = [error_descr msg]))
   \<and> (\<not> fst (get_tags rp) \<longrightarrow> (\<exists>msg. snd (get_tags rp) = [error_descr msg]))
   \<and> (\<not> fst (list_branches rp all_branches)
      \<longrightarrow> (\<exists>msg. snd (list_branches rp all_branches) = [error_descr msg]))
   \<and> (\<not> fst (list_remotes rp) \<longrightarrow> (\<exists>msg. snd (list_remotes rp) = [error_descr msg]))"
proof (intro conjI impI)
  assume "\<not> fst (log eng rp max_count branch author since)"
  then show "\<exists>msg. snd (log eng rp max_count branch author since) = [error_descr msg]"
    by (auto simp: log_def split: option.splits sum.splits)
next
  assume "\<not> fst (blame eng rp file_path line_start line_end)"
  then show "\<exists>msg. snd (blame eng rp file_path line_start line_end) = [error_descr msg]"
    by (auto simp: blame_def split: option.splits sum.splits)
next
  assume "\<not> fst (get_tags rp)"
  then show "\<exists>msg. snd (get_tags rp) = [error_descr msg]"
    by (auto simp: get_tags_def split: option.splits sum.splits)
next
  assume "\<not> fst (list_branches rp all_branches)"
  then show "\<exists>msg. snd (list_branches rp all_branches) = [error_descr msg]"
    by (auto simp: list_branches_def split: option.splits sum.splits)
next
  assume "\<not> fst (list_remotes rp)"
  then show "\<exists>msg. snd (list_remotes rp) = [error_descr msg]"
    by (auto simp: list_remotes_def split: option.splits sum.splits)
qed


text \<open>
  The four listings that take no branch state, on an invalid handle, and
  \<open>list_branches\<close> on a repository whose \<open>HEAD\<close> is detached.
\<close>

theorem listing_failure_shape_witness:
  "\<not> fst (log idle_engine None 10 None None None)
   \<and> snd (log idle_engine None 10 None None None) = [error_descr ''Not a git repository'']
   \<and> \<not> fst (blame idle_engine None ''notes.txt'' None None)
   \<and> snd (blame idle_engine None ''notes.txt'' None None) = [error_descr ''Not a git repository'']
   \<and> \<not> fst (get_tags None)
   \<and> snd (get_tags None) = [error_descr ''Not a git repository'']
   \<and> \<not> fst (list_remotes None)
   \<and> snd (list_remotes None) = [error_descr ''Not a git repository'']
   \<and> \<not> fst (list_branches (Some detached_repo) True)
   \<and> snd (list_branches (Some detached_repo) True)
       = [error_descr (''Error listing branches: HEAD is a detached symbolic reference as it points to ''
                       @ quoted (hexsha commit_b))]"
  using listing_failure_shape [of idle_engine None 10 None None None "''notes.txt''" None None True]
    listing_failure_shape [of idle_engine "Some detached_repo" 10 None None None "''notes.txt''"
      None None True]
  by (simp add: log_def blame_def get_tags_def list_remotes_def list_branches_def
      list_branches_body_def and_then_def active_branch_name_def detached_repo_def
      main_repo_def)

section \<open>Properties of SSH key generation\<close>

text \<open>
  When nothing stands in the way, opening, writing and the mode change go through, and
  so does the creation of the key directory.
\<close>

lemma public_key_path_differs: "public_key_path m \<noteq> private_key_path m"
  by (simp add: public_key_path_def)

lemma open_wb_succeeds:
  assumes "\<not> is_dir fs p" and "open_out os p = None"
  shows "\<exists>mode. open_wb os fs p = (fs(p \<mapsto> File [] mode), None)"
proof (cases "fs p")
  case None
  with assms show ?thesis by (auto simp: open_wb_def)
next
  case (Some nd)
  with assms show ?thesis by (cases nd) (auto simp: open_wb_def is_dir_def)
qed

lemma write_bytes_succeeds:
  "write_out os p = None \<Longrightarrow> fs p = Some (File c0 mode) \<Longrightarrow>
   write_bytes os fs p c = (fs(p \<mapsto> File c mode), None)"
  by (simp add: write_bytes_def)

lemma chmod_file_succeeds:
  "chmod_out os p = None \<Longrightarrow> fs p = Some (File c old) \<Longrightarrow>
   chmod os fs p mode = (fs(p \<mapsto> File c mode), None)"
  by (simp add: chmod_def)

lemma mkdir_700_succeeds:
  assumes "case fs d of Some (Dir _) \<Rightarrow> True | Some (File _ _) \<Rightarrow> False
           | None \<Rightarrow> mkdir_out os = None \<and> d \<noteq> p \<and> d \<noteq> q"
    and "\<not> is_dir fs p" and "\<not> is_dir fs q"
  shows "\<exists>fs1. mkdir_700 os fs d = (fs1, None) \<and> \<not> is_dir fs1 p \<and> \<not> is_dir fs1 q"
proof (cases "fs d")
  case None
  with assms show ?thesis by (auto simp: mkdir_700_def is_dir_def)
next
  case (Some nd)
  with assms show ?thesis by (cases nd) (simp_all add: mkdir_700_def)
qed

text \<open>Opening, writing and changing the mode of one key file, in a row.\<close>

lemma write_key_file:
  assumes nd: "\<not> is_dir fs p"
    and o: "open_out os p = None" and w: "write_out os p = None" and c: "chmod_out os p = None"
  shows "\<exists>fs1 fs2 fs3. open_wb os fs p = (fs1, None) \<and> write_bytes os fs1 p content = (fs2, None)
           \<and> chmod os fs2 p mode = (fs3, None) \<and> fs3 = fs(p \<mapsto> File content mode)"
proof -
  from open_wb_succeeds[OF nd o] obtain m0 where
    s1: "open_wb os fs p = (fs(p \<mapsto> File [] m0), None)" by blast
  have g1: "(fs(p \<mapsto> File [] m0)) p = Some (File [] m0)" by simp
  have s2: "write_bytes os (fs(p \<mapsto> File [] m0)) p content = (fs(p \<mapsto> File content m0), None)"
    using write_bytes_succeeds[where fs = "fs(p \<mapsto> File [] m0)", OF w g1, of content] by simp
  have g2: "(fs(p \<mapsto> File content m0)) p = Some (File content m0)" by simp
  have s3: "chmod os (fs(p \<mapsto> File content m0)) p mode = (fs(p \<mapsto> File content mode), None)"
    using chmod_file_succeeds[where fs = "fs(p \<mapsto> File content m0)", OF c g2, of mode] by simp
  from s1 s2 s3 show ?thesis by blast
qed

text \<open>
  The generation block runs to its end when none of its calls fails, and leaves the
  new key at both paths.
\<close>

lemma generate_body_succeeds:
  assumes nd1: "\<not> is_dir fs (private_key_path m)" and nd2: "\<not> is_dir fs (public_key_path m)"
    and pb: "private_bytes_out os = Inr private_pem"
    and ub: "public_bytes_out os = Inr public_ssh"
    and en: "encode_out os ('' '' @ email) = Inr comment"
    and o1: "open_out os (private_key_path m) = None"
    and w1: "write_out os (private_key_path m) = None"
    and c1: "chmod_out os (private_key_path m) = None"
    and o2: "open_out os (public_key_path m) = None"
    and w2: "write_out os (public_key_path m) = None"
    and c2: "chmod_out os (public_key_path m) = None"
  shows "\<exists>fs'. generate_body os m fs email = (fs', None)
           \<and> fs' (private_key_path m) = Some (File private_pem 384)
           \<and> fs' (public_key_path m) = Some (File (public_ssh @ comment) 420)"
proof -
  from write_key_file[OF nd1 o1 w1 c1, of private_pem 384] obtain fs1 fs2 fs3 where
    s1: "open_wb os fs (private_key_path m) = (fs1, None)"
    and s2: "write_bytes os fs1 (private_key_path m) private_pem = (fs2, None)"
    and s3: "chmod os fs2 (private_key_path m) 384 = (fs3, None)"
    and f3: "fs3 = fs(private_key_path m \<mapsto> File private_pem 384)" by blast
  have nd3: "\<not> is_dir fs3 (public_key_path m)"
    using nd2 f3 public_key_path_differs[of m] by (simp add: is_dir_def)
  from write_key_file[OF nd3 o2 w2 c2, of "public_ssh @ comment" 420] obtain fs4 fs5 fs6 where
    s4: "open_wb os fs3 (public_key_path m) = (fs4, None)"
    and s5: "write_bytes os fs4 (public_key_path m) (public_ssh @ comment) = (fs5, None)"
    and s6: "chmod os fs5 (public_key_path m) 420 = (fs6, None)"
    and f6: "fs6 = fs3(public_key_path m \<mapsto> File (public_ssh @ comment) 420)" by blast
  have run: "generate_body os m fs email = (fs6, None)"
    unfolding generate_body_def
    by (simp only: pb ub en s1 s2 s3 s4 s5 s6 sum.case prod.case option.case)
  from f6 f3 public_key_path_differs[of m] have
    "fs6 (private_key_path m) = Some (File private_pem 384)"
    "fs6 (public_key_path m) = Some (File (public_ssh @ comment) 420)"
    by simp_all
  with run show ?thesis by blast
qed

text \<open>
  When both status requests are answered and both paths exist, the call with
  \<open>overwrite=False\<close> returns the refusal and leaves the file system as it found it:
  the refusal comes before the directory is created and before anything is written.
\<close>

lemma generate_refuses_examined_pair:
  "exists_path os fs (private_key_path m) = Inr True \<Longrightarrow>
   exists_path os fs (public_key_path m) = Inr True \<Longrightarrow>
   generate_ssh_key os m fs email False
     = (fs, Inr (False, ''SSH key already exists at '' @ private_key_path m))"
  by (simp add: generate_ssh_key_def check_ssh_key_exists_def)

text \<open>
  C6. When both the private and the public key file exist,
  \<open>generate_ssh_key(email, overwrite=False)\<close> should return failure and leave both
  files unchanged. The existence check stands before the \<open>try\<close> of the method. In a
  key directory that the process may not search, \<open>Path.exists()\<close> raises the
  permission error of the system: both files are there and stay as they were, but the
  call raises instead of returning its failure pair.
\<close>

theorem generate_existing_pair_raises:
  "both_keys_fs (private_key_path ada_keys) = Some (File ''OLD PRIVATE'' 384)
   \<and> both_keys_fs (public_key_path ada_keys) = Some (File ''OLD PUBLIC'' 420)
   \<and> generate_ssh_key locked_os ada_keys both_keys_fs ''ada@example.org'' False
       = (both_keys_fs,
          Inl (OSError (''[Errno 13] Permission denied: '' @ quoted ''/home/ada/.ssh/id_rsa'')))"
  by (simp add: both_keys_fs_def ada_keys_def public_key_path_def generate_ssh_key_def
      check_ssh_key_exists_def exists_path_def locked_os_def willing_os_def)

text \<open>
  C10, as stated, where only the public key exists and the key directory cannot be
  written: the call is not refused, but opening the private key file raises, the
  handler reports the failure, and the existing public key is not overwritten.
\<close>

theorem generate_one_file_counterexample:
  "public_only_fs (private_key_path ada_keys) = None
   \<and> public_only_fs (public_key_path ada_keys) = Some (File ''OLD PUBLIC'' 420)
   \<and> snd (generate_ssh_key readonly_os ada_keys public_only_fs ''ada@example.org'' False)
       = Inr (False, ''Error generating SSH key: [Errno 13] Permission denied: ''
                     @ quoted ''/home/ada/.ssh/id_rsa'')
   \<and> fst (generate_ssh_key readonly_os ada_keys public_only_fs ''ada@example.org'' False)
         (public_key_path ada_keys)
       = Some (File ''OLD PUBLIC'' 420)"
  by (simp add: exists_path_def public_only_fs_def ada_keys_def public_key_path_def
      generate_ssh_key_def check_ssh_key_exists_def mkdir_700_def generate_body_def
      open_wb_def readonly_os_def willing_os_def quoted_def)

text \<open>
  C10, amended. With \<open>overwrite=False\<close> the refusal "SSH key already exists" is
  returned only when both the private and the public key file exist. When exactly one
  of them exists, no call of the operating system or of the cryptography library
  fails and the e-mail can be encoded, the call generates the key, reports success and
  leaves the new key at both paths: the private key with mode 0600 and the public key
  followed by a space and the e-mail with mode 0644, so the file that existed has been
  overwritten.
\<close>

theorem generate_refusal_needs_both:
  "(generate_ssh_key os m fs email False
      = (fs', Inr (False, ''SSH key already exists at '' @ private_key_path m))
    \<longrightarrow> fs (private_key_path m) \<noteq> None \<and> fs (public_key_path m) \<noteq> None)
   \<and> (no_call_fails os m fs email
       \<and> (fs (private_key_path m) \<noteq> None) \<noteq> (fs (public_key_path m) \<noteq> None)
    \<longrightarrow> (\<exists>private_pem public_ssh comment.
           private_bytes_out os = Inr private_pem \<and> public_bytes_out os = Inr public_ssh
           \<and> encode_out os ('' '' @ email) = Inr comment
           \<and> snd (generate_ssh_key os m fs email False)
               = Inr (True, ''SSH key generated successfully at '' @ private_key_path m)
           \<and> fst (generate_ssh_key os m fs email False) (private_key_path m)
               = Some (File private_pem 384)
           \<and> fst (generate_ssh_key os m fs email False) (public_key_path m)
               = Some (File (public_ssh @ comment) 420)))"
proof (rule conjI; rule impI)
  assume "generate_ssh_key os m fs email False
      = (fs', Inr (False, ''SSH key already exists at '' @ private_key_path m))"
  then have "check_ssh_key_exists os m fs = Inr True"
    by (auto simp: generate_ssh_key_def split: sum.splits if_splits prod.splits option.splits)
  then show "fs (private_key_path m) \<noteq> None \<and> fs (public_key_path m) \<noteq> None"
    by (auto simp: check_ssh_key_exists_def exists_path_def
        split: sum.splits if_splits option.splits)
next
  assume a: "no_call_fails os m fs email
       \<and> (fs (private_key_path m) \<noteq> None) \<noteq> (fs (public_key_path m) \<noteq> None)"
  then have st: "stat_out os (private_key_path m) = None" "stat_out os (public_key_path m) = None"
    and dir: "case fs (ssh_dir m) of Some (Dir _) \<Rightarrow> True | Some (File _ _) \<Rightarrow> False
              | None \<Rightarrow> mkdir_out os = None \<and> ssh_dir m \<noteq> private_key_path m
                        \<and> ssh_dir m \<noteq> public_key_path m"
    and nd: "\<not> is_dir fs (private_key_path m)" "\<not> is_dir fs (public_key_path m)"
    and w1: "open_out os (private_key_path m) = None" "write_out os (private_key_path m) = None"
      "chmod_out os (private_key_path m) = None"
    and w2: "open_out os (public_key_path m) = None" "write_out os (public_key_path m) = None"
      "chmod_out os (public_key_path m) = None"
    by (simp_all add: no_call_fails_def)
  from a obtain private_pem public_ssh comment where
    pb: "private_bytes_out os = Inr private_pem" and ub: "public_bytes_out os = Inr public_ssh"
    and en: "encode_out os ('' '' @ email) = Inr comment"
    by (auto simp: no_call_fails_def split: sum.splits)
  from a st have chk: "check_ssh_key_exists os m fs = Inr False"
    by (auto simp: check_ssh_key_exists_def exists_path_def)
  from mkdir_700_succeeds[OF dir nd] obtain fs1 where
    mk: "mkdir_700 os fs (ssh_dir m) = (fs1, None)"
    and nd1: "\<not> is_dir fs1 (private_key_path m)" "\<not> is_dir fs1 (public_key_path m)"
    by blast
  from generate_body_succeeds[OF nd1 pb ub en w1 w2] obtain fs2 where
    gb: "generate_body os m fs1 email = (fs2, None)"
    and c: "fs2 (private_key_path m) = Some (File private_pem 384)"
      "fs2 (public_key_path m) = Some (File (public_ssh @ comment) 420)"
    by blast
  from chk mk gb have
    "generate_ssh_key os m fs email False
       = (fs2, Inr (True, ''SSH key generated successfully at '' @ private_key_path m))"
    by (simp add: generate_ssh_key_def)
  with c pb ub en
  show "\<exists>private_pem public_ssh comment.
           private_bytes_out os = Inr private_pem \<and> public_bytes_out os = Inr public_ssh
           \<and> encode_out os ('' '' @ email) = Inr comment
           \<and> snd (generate_ssh_key os m fs email False)
               = Inr (True, ''SSH key generated successfully at '' @ private_key_path m)
           \<and> fst (generate_ssh_key os m fs email False) (private_key_path m)
               = Some (File private_pem 384)
           \<and> fst (generate_ssh_key os m fs email False) (public_key_path m)
               = Some (File (public_ssh @ comment) 420)"
    by simp
qed

text \<open>
  The refusal on an existing pair, and the generation where only the public key
  existed and every call goes through.
\<close>

theorem generate_refusal_needs_both_witness:
  "generate_ssh_key willing_os ada_keys both_keys_fs ''ada@example.org'' False
     = (both_keys_fs, Inr (False, ''SSH key already exists at '' @ private_key_path ada_keys))
   \<and> both_keys_fs (private_key_path ada_keys) \<noteq> None
   \<and> both_keys_fs (public_key_path ada_keys) \<noteq> None
   \<and> no_call_fails willing_os ada_keys public_only_fs ''ada@example.org''
   \<and> (public_only_fs (private_key_path ada_keys) \<noteq> None)
       \<noteq> (public_only_fs (public_key_path ada_keys) \<noteq> None)
   \<and> snd (generate_ssh_key willing_os ada_keys public_only_fs ''ada@example.org'' False)
       = Inr (True, ''SSH key generated successfully at /home/ada/.ssh/id_rsa'')
   \<and> fst (generate_ssh_key willing_os ada_keys public_only_fs ''ada@example.org'' False)
         (private_key_path ada_keys)
       = Some (File ''NEW PRIVATE'' 384)
   \<and> fst (generate_ssh_key willing_os ada_keys public_only_fs ''ada@example.org'' False)
         (public_key_path ada_keys)
       = Some (File ''ssh-rsa NEW ada@example.org'' 420)"
proof -
  have h1: "generate_ssh_key willing_os ada_keys both_keys_fs ''ada@example.org'' False
     = (both_keys_fs, Inr (False, ''SSH key already exists at '' @ private_key_path ada_keys))"
    by (simp add: generate_ssh_key_def check_ssh_key_exists_def exists_path_def
        both_keys_fs_def ada_keys_def public_key_path_def willing_os_def)
  have h2: "no_call_fails willing_os ada_keys public_only_fs ''ada@example.org''"
    by (simp add: no_call_fails_def is_dir_def willing_os_def ada_keys_def public_only_fs_def
        public_key_path_def)
  have h3: "(public_only_fs (private_key_path ada_keys) \<noteq> None)
       \<noteq> (public_only_fs (public_key_path ada_keys) \<noteq> None)"
    by (simp add: public_only_fs_def ada_keys_def public_key_path_def)
  have pb: "private_bytes_out willing_os = Inr ''NEW PRIVATE''"
    and ub: "public_bytes_out willing_os = Inr ''ssh-rsa NEW''"
    and en: "encode_out willing_os ('' '' @ ''ada@example.org'') = Inr '' ada@example.org''"
    by (simp_all add: willing_os_def)
  note refusal = generate_refusal_needs_both
         [where os = willing_os and m = ada_keys and fs = both_keys_fs
            and email = "''ada@example.org''" and fs' = both_keys_fs]
  note success = generate_refusal_needs_both
         [where os = willing_os and m = ada_keys and fs = public_only_fs
            and email = "''ada@example.org''"]
  from refusal h1 have both: "both_keys_fs (private_key_path ada_keys) \<noteq> None
      \<and> both_keys_fs (public_key_path ada_keys) \<noteq> None"
    by blast
  from success h2 h3 pb ub en have written:
    "snd (generate_ssh_key willing_os ada_keys public_only_fs ''ada@example.org'' False)
       = Inr (True, ''SSH key generated successfully at '' @ private_key_path ada_keys)
     \<and> fst (generate_ssh_key willing_os ada_keys public_only_fs ''ada@example.org'' False)
         (private_key_path ada_keys) = Some (File ''NEW PRIVATE'' 384)
     \<and> fst (generate_ssh_key willing_os ada_keys public_only_fs ''ada@example.org'' False)
         (public_key_path ada_keys) = Some (File (''ssh-rsa NEW'' @ '' ada@example.org'') 420)"
    by auto
  have "private_key_path ada_keys = ''/home/ada/.ssh/id_rsa''" by (simp add: ada_keys_def)
  with h1 h2 h3 both written show ?thesis by simp
qed

end
